theory Spec2Isabelle
  imports Complex_Main "HOL-Library.Multiset"
begin

section \<open>Data model (src/lib/types.ts)\<close>

text \<open>
  Numbers of the source are JavaScript numbers compared with \<open>\<le>\<close> and \<open>\<ge>\<close> only; fees and
  ratings are modelled as rationals, years of experience as integers. The \<open>id\<close> and
  \<open>name\<close> fields of the interfaces carry a prefix here, since record fields are global names.
\<close>

record Doctor =
  doc_id :: string
  doc_user_id :: "string option"
  doc_name :: string
  specialization :: string
  experience_years :: int
  bio :: "string option"
  avatar_url :: "string option"
  availability :: "string \<rightharpoonup> bool"
  rating :: rat
  consultation_fee :: rat
  is_featured :: bool
  doc_created_at :: string

datatype status = Scheduled | Confirmed | Completed | Cancelled

text \<open>
  A calendar day is the number of a day of the local calendar. A \<open>Date\<close> of the source is
  a local day together with the milliseconds elapsed since local midnight.
\<close>

type_synonym cal_day = int
type_synonym Date = "cal_day \<times> nat"

record Appointment =
  apt_id :: string
  patient_id :: string
  doctor_id :: string
  appointment_date :: cal_day
  appointment_time :: string
  status :: status
  apt_notes :: "string option"
  reminder_sent :: bool
  created_at :: string
  updated_at :: string
  apt_doctor :: "Doctor option"

datatype chat_role = RoleUser | RoleAssistant

text \<open>
  The text of a chat message is a JavaScript string: a sequence of UTF-16 code units, each
  given by its number. The white space that \<open>trim\<close> removes lies beyond ASCII as well,
  so the text is not kept as a list of 8-bit characters.
\<close>

type_synonym js_string = "nat list"

record ChatMessage =
  msg_id :: string
  msg_user_id :: string
  msg_role :: chat_role
  msg_content :: js_string
  msg_created_at :: string

section \<open>date-fns as used by the two dialogs\<close>

text \<open>
  \<open>startOfToday()\<close> and \<open>new Date()\<close> read the clock; the clock value is the
  argument \<open>now\<close>, one value for both reads of the matcher.
  \<open>addDays\<close> moves the calendar day and keeps the time of day; \<open>isBefore\<close> compares
  two instants, here by day and then by time of day, as local time does wherever the
  clock is not set back in between.
  \<open>format(d, 'yyyy-MM-dd')\<close> renders the local calendar day of \<open>d\<close>;
  the model keeps the day itself in place of its ten characters.
\<close>

definition startOfDay :: "Date \<Rightarrow> Date" where
  "startOfDay d = (fst d, 0)"

definition startOfToday :: "Date \<Rightarrow> Date" where
  "startOfToday now = startOfDay now"

definition addDays :: "Date \<Rightarrow> int \<Rightarrow> Date" where
  "addDays d n = (fst d + n, snd d)"

definition isBefore :: "Date \<Rightarrow> Date \<Rightarrow> bool" where
  "isBefore a b = (fst a < fst b \<or> (fst a = fst b \<and> snd a < snd b))"

definition format_ymd :: "Date \<Rightarrow> cal_day" where
  "format_ymd d = fst d"

text \<open>
  The \<open>disabled\<close> matcher handed to the calendar, the same expression in
  BookingDialog.tsx line 153 and CreateAppointmentDialog.tsx line 359.
\<close>

definition disabled :: "Date \<Rightarrow> Date \<Rightarrow> bool" where
  "disabled now date =
     (isBefore date (startOfToday now) \<or> isBefore (addDays now 30) date)"

text \<open>The calendar offers whole days: the date of day \<open>d\<close> is its local midnight.\<close>

definition calendar_day :: "cal_day \<Rightarrow> Date" where
  "calendar_day d = (d, 0)"

definition selectable :: "Date \<Rightarrow> cal_day \<Rightarrow> bool" where
  "selectable now d = (\<not> disabled now (calendar_day d))"

section \<open>The appointment ledger\<close>

record pg_error =
  code :: string
  message :: string

record insert_payload =
  p_patient_id :: string
  p_doctor_id :: string
  p_appointment_date :: cal_day
  p_appointment_time :: string
  p_notes :: "string option"

text \<open>Values the database fills in for a new row: its generated id and the current timestamp.\<close>

record db_gen =
  gen_id :: string
  gen_now :: string

definition slot_of :: "Appointment \<Rightarrow> string \<times> cal_day \<times> string" where
  "slot_of a = (doctor_id a, appointment_date a, appointment_time a)"

definition slot_taken :: "Appointment list \<Rightarrow> string \<times> cal_day \<times> string \<Rightarrow> bool" where
  "slot_taken db k = list_ex (\<lambda>a. status a \<noteq> Cancelled \<and> slot_of a = k) db"

definition unique_violation :: pg_error where
  "unique_violation =
     \<lparr>code = ''23505'', message = ''duplicate key value violates unique constraint''\<rparr>"

text \<open>
  Modelled from the spec: the \<open>appointments\<close> table, whose migration is not among the
  sources. The spec gives it a uniqueness constraint on (doctor, date, time) among the rows
  whose status is not cancelled, the initial status scheduled, and a conflict signal for a
  rejected insert. \<open>fault\<close> is a failure of another kind (connectivity, permission,
  validation) met by this request, if any.
\<close>

definition ledger_insert ::
  "pg_error option \<Rightarrow> db_gen \<Rightarrow> Appointment list \<Rightarrow> insert_payload
     \<Rightarrow> pg_error option \<times> Appointment list" where
  "ledger_insert fault g db p =
     (case fault of
        Some e \<Rightarrow> (Some e, db)
      | None \<Rightarrow>
          if slot_taken db (p_doctor_id p, p_appointment_date p, p_appointment_time p)
          then (Some unique_violation, db)
          else (None, db @
                 [\<lparr>apt_id = gen_id g, patient_id = p_patient_id p,
                   doctor_id = p_doctor_id p,
                   appointment_date = p_appointment_date p,
                   appointment_time = p_appointment_time p,
                   status = Scheduled, apt_notes = p_notes p, reminder_sent = False,
                   created_at = gen_now g, updated_at = gen_now g,
                   apt_doctor = None\<rparr>]))"

text \<open>
  The query of \<open>fetchBookedSlots\<close>:
  \<open>select('appointment_time').eq('doctor_id', _).eq('appointment_date', _).neq('status', 'cancelled')\<close>.
\<close>

definition select_booked :: "Appointment list \<Rightarrow> string \<Rightarrow> cal_day \<Rightarrow> string list" where
  "select_booked db d dt =
     map appointment_time
       (filter (\<lambda>a. doctor_id a = d \<and> appointment_date a = dt \<and> status a \<noteq> Cancelled) db)"

text \<open>
  The update of \<open>cancelAppointment\<close>: \<open>update({ status: 'cancelled' }).eq('id', _)\<close>.
  Every row with that id gets the new status; a failing request changes nothing.
\<close>

definition ledger_update_cancelled ::
  "pg_error option \<Rightarrow> Appointment list \<Rightarrow> string \<Rightarrow> pg_error option \<times> Appointment list" where
  "ledger_update_cancelled fault db aid =
     (case fault of
        Some e \<Rightarrow> (Some e, db)
      | None \<Rightarrow> (None, map (\<lambda>a. if apt_id a = aid then a\<lparr>status := Cancelled\<rparr> else a) db))"

section \<open>Effects\<close>

datatype toast = Toast (title: string) (description: string) (destructive: bool)

text \<open>
  What a handler does to the outside, in the order it does it: requests to the backend,
  toasts, and the callbacks of the surrounding page. \<open>SelectBookedSlots d dt st\<close> is the
  select of the appointment times with doctor \<open>d\<close>, date \<open>dt\<close> and a status other than
  \<open>st\<close>.
\<close>

datatype event =
    InsertAppointment insert_payload
  | SelectBookedSlots string cal_day status
  | UpdateStatusCancelled string
  | SelectDoctors rat rat int "string option"
  | ShowToast toast
  | OnAppointmentCreated
  | OnOpenChange bool

record io =
  ledger :: "Appointment list"
  directory :: "Doctor list"
  trace :: "event list"

definition emit :: "event \<Rightarrow> io \<Rightarrow> io" where
  "emit e w = w\<lparr>trace := trace w @ [e]\<rparr>"

type_synonym User = string

definition timeSlots :: "string list" where
  "timeSlots =
     [''09:00'', ''09:30'', ''10:00'', ''10:30'', ''11:00'', ''11:30'',
      ''14:00'', ''14:30'', ''15:00'', ''15:30'', ''16:00'', ''16:30'', ''17:00'']"

definition slot_unavailable_toast :: toast where
  "slot_unavailable_toast =
     Toast ''Slot Unavailable''
       ''This time slot has just been booked. Please choose another.'' True"

definition booking_failed_toast :: "pg_error \<Rightarrow> toast" where
  "booking_failed_toast e = Toast ''Booking Failed'' (message e) True"

definition booked_toast :: "Doctor \<Rightarrow> toast" where
  "booked_toast d =
     Toast ''Appointment Booked!''
       (''Your appointment with '' @ doc_name d @ '' is confirmed.'') False"

text \<open>\<open>notes || null\<close>: the empty string is falsy.\<close>

definition notes_or_null :: "string \<Rightarrow> string option" where
  "notes_or_null n = (if n = [] then None else Some n)"

text \<open>The object both dialogs hand to \<open>insert\<close>.\<close>

definition booking_payload :: "User \<Rightarrow> Doctor \<Rightarrow> Date \<Rightarrow> string \<Rightarrow> string \<Rightarrow> insert_payload" where
  "booking_payload u d date time n =
     \<lparr>p_patient_id = u, p_doctor_id = doc_id d,
      p_appointment_date = format_ymd date,
      p_appointment_time = time,
      p_notes = notes_or_null n\<rparr>"

section \<open>BookingDialog.tsx: the dialog with a pre-selected doctor\<close>

datatype bd_step = BDate | BTime | BConfirm | BSuccess

record booking_state =
  bd_step :: bd_step
  bd_selectedDate :: "Date option"
  bd_selectedTime :: "string option"
  bd_notes :: string
  bd_loading :: bool
  bd_bookedSlots :: "string list"

definition bd_initial :: booking_state where
  "bd_initial =
     \<lparr>bd_step = BDate, bd_selectedDate = None, bd_selectedTime = None,
      bd_notes = [], bd_loading = False, bd_bookedSlots = []\<rparr>"

definition bd_resetState :: "booking_state \<Rightarrow> booking_state" where
  "bd_resetState s =
     s\<lparr>bd_step := BDate, bd_selectedDate := None, bd_selectedTime := None,
       bd_notes := [], bd_bookedSlots := []\<rparr>"

definition bd_handleOpenChange :: "bool \<Rightarrow> booking_state \<times> io \<Rightarrow> booking_state \<times> io" where
  "bd_handleOpenChange newOpen sw =
     (case sw of (s, w) \<Rightarrow>
        ((if \<not> newOpen then bd_resetState s else s), emit (OnOpenChange newOpen) w))"

text \<open>
  \<open>data_ok\<close> says whether the select answered with rows; with \<open>data\<close> null the
  booked slots stay as they were.
\<close>

definition bd_fetchBookedSlots ::
  "Doctor option \<Rightarrow> bool \<Rightarrow> Date \<Rightarrow> booking_state \<times> io \<Rightarrow> booking_state \<times> io" where
  "bd_fetchBookedSlots doctor data_ok date sw =
     (case sw of (s, w) \<Rightarrow>
        (case doctor of
           None \<Rightarrow> (s, w)
         | Some d \<Rightarrow>
             let w' = emit (SelectBookedSlots (doc_id d) (format_ymd date) Cancelled) w in
             if data_ok
             then (s\<lparr>bd_bookedSlots :=
                       map (take 5) (select_booked (ledger w) (doc_id d) (format_ymd date))\<rparr>, w')
             else (s, w')))"

definition bd_handleDateSelect ::
  "Doctor option \<Rightarrow> bool \<Rightarrow> Date option \<Rightarrow> booking_state \<times> io \<Rightarrow> booking_state \<times> io" where
  "bd_handleDateSelect doctor data_ok date sw =
     (case sw of (s, w) \<Rightarrow>
        let s1 = s\<lparr>bd_selectedDate := date\<rparr> in
        (case date of
           None \<Rightarrow> (s1, w)
         | Some dt \<Rightarrow>
             (case bd_fetchBookedSlots doctor data_ok dt (s1, w) of
                (s2, w2) \<Rightarrow> (s2\<lparr>bd_step := BTime\<rparr>, w2))))"

definition bd_handleTimeSelect :: "string \<Rightarrow> booking_state \<Rightarrow> booking_state" where
  "bd_handleTimeSelect time s = s\<lparr>bd_selectedTime := Some time, bd_step := BConfirm\<rparr>"

text \<open>
  \<open>handleBooking\<close>. The guard \<open>!selectedTime\<close> also holds for the empty string.
  \<open>fault\<close> and \<open>g\<close> belong to the insert, \<open>data_ok\<close> to the select that follows a
  conflict.
\<close>

definition bd_handleBooking ::
  "User option \<Rightarrow> Doctor option \<Rightarrow> pg_error option \<Rightarrow> db_gen \<Rightarrow> bool
     \<Rightarrow> booking_state \<times> io \<Rightarrow> booking_state \<times> io" where
  "bd_handleBooking user doctor fault g data_ok sw =
     (case sw of (s, w) \<Rightarrow>
        (case (user, doctor, bd_selectedDate s, bd_selectedTime s) of
           (Some u, Some d, Some date, Some time) \<Rightarrow>
             if time = [] then (s, w)
             else
               let p = booking_payload u d date time (bd_notes s);
                   r = ledger_insert fault g (ledger w) p;
                   w1 = emit (InsertAppointment p) (w\<lparr>ledger := snd r\<rparr>);
                   s1 = s\<lparr>bd_loading := False\<rparr>
               in (case fst r of
                     Some e \<Rightarrow>
                       if code e = ''23505''
                       then bd_fetchBookedSlots doctor data_ok date
                              (s1\<lparr>bd_step := BTime\<rparr>, emit (ShowToast slot_unavailable_toast) w1)
                       else (s1, emit (ShowToast (booking_failed_toast e)) w1)
                   | None \<Rightarrow>
                       (s1\<lparr>bd_step := BSuccess\<rparr>, emit (ShowToast (booked_toast d)) w1))
         | _ \<Rightarrow> (s, w)))"

text \<open>The time-step buttons: each slot of \<open>timeSlots\<close> with its \<open>disabled\<close> flag.\<close>

definition bd_slot_buttons :: "booking_state \<Rightarrow> (string \<times> bool) list" where
  "bd_slot_buttons s = map (\<lambda>time. (time, time \<in> set (bd_bookedSlots s))) timeSlots"

section \<open>CreateAppointmentDialog.tsx: the criteria-driven wizard\<close>

datatype ca_step = SCriteria | SDoctor | SDate | STime | SConfirm | SSuccess

text \<open>
  The three slider values are one-element arrays in the source, read with \<open>[0]\<close>; the
  model keeps the element.
\<close>

record wizard_state =
  ca_step :: ca_step
  ca_selectedSpecialization :: string
  ca_maxFee :: rat
  ca_minRating :: rat
  ca_minExperience :: int
  ca_doctors :: "Doctor list"
  ca_loadingDoctors :: bool
  ca_selectedDoctor :: "Doctor option"
  ca_selectedDate :: "Date option"
  ca_selectedTime :: "string option"
  ca_notes :: string
  ca_loading :: bool
  ca_bookedSlots :: "string list"

definition ca_initial :: wizard_state where
  "ca_initial =
     \<lparr>ca_step = SCriteria, ca_selectedSpecialization = ''All Specializations'',
      ca_maxFee = 500, ca_minRating = 3, ca_minExperience = 0, ca_doctors = [],
      ca_loadingDoctors = False, ca_selectedDoctor = None, ca_selectedDate = None,
      ca_selectedTime = None, ca_notes = [], ca_loading = False, ca_bookedSlots = []\<rparr>"

definition ca_resetState :: "wizard_state \<Rightarrow> wizard_state" where
  "ca_resetState s =
     s\<lparr>ca_step := SCriteria, ca_selectedSpecialization := ''All Specializations'',
       ca_maxFee := 500, ca_minRating := 3, ca_minExperience := 0, ca_doctors := [],
       ca_selectedDoctor := None, ca_selectedDate := None, ca_selectedTime := None,
       ca_notes := [], ca_bookedSlots := []\<rparr>"

definition ca_handleOpenChange :: "bool \<Rightarrow> wizard_state \<times> io \<Rightarrow> wizard_state \<times> io" where
  "ca_handleOpenChange newOpen sw =
     (case sw of (s, w) \<Rightarrow>
        ((if \<not> newOpen then ca_resetState s else s), emit (OnOpenChange newOpen) w))"

text \<open>\<open>order('rating', { ascending: false })\<close>: the rows sorted by falling rating.\<close>

definition order_rating_desc :: "Doctor list \<Rightarrow> Doctor list" where
  "order_rating_desc xs = sort_key (\<lambda>d. - rating d) xs"

text \<open>
  The query built by \<open>fetchFilteredDoctors\<close> on the \<open>doctors\<close> table: \<open>lte\<close> on the fee,
  \<open>gte\<close> on rating and experience, \<open>eq\<close> on the specialization unless it is
  'All Specializations', then the ordering.
\<close>

definition query_doctors :: "Doctor list \<Rightarrow> rat \<Rightarrow> rat \<Rightarrow> int \<Rightarrow> string \<Rightarrow> Doctor list" where
  "query_doctors tbl F R E S =
     (let q = filter (\<lambda>d. E \<le> experience_years d)
                (filter (\<lambda>d. R \<le> rating d)
                  (filter (\<lambda>d. consultation_fee d \<le> F) tbl));
          q' = (if S \<noteq> ''All Specializations''
                then filter (\<lambda>d. specialization d = S) q else q)
      in order_rating_desc q')"

text \<open>
  \<open>resp_ok\<close> says whether the directory answered without error and with rows (possibly
  none); otherwise the list of doctors stays as it was.
\<close>

definition fetchFilteredDoctors :: "bool \<Rightarrow> wizard_state \<times> io \<Rightarrow> wizard_state \<times> io" where
  "fetchFilteredDoctors resp_ok sw =
     (case sw of (s, w) \<Rightarrow>
        let S = ca_selectedSpecialization s;
            w' = emit (SelectDoctors (ca_maxFee s) (ca_minRating s) (ca_minExperience s)
                        (if S \<noteq> ''All Specializations'' then Some S else None)) w;
            s1 = (if resp_ok
                  then s\<lparr>ca_doctors :=
                           query_doctors (directory w) (ca_maxFee s) (ca_minRating s)
                             (ca_minExperience s) S\<rparr>
                  else s)
        in (s1\<lparr>ca_loadingDoctors := False\<rparr>, w'))"

definition handleApplyCriteria :: "bool \<Rightarrow> wizard_state \<times> io \<Rightarrow> wizard_state \<times> io" where
  "handleApplyCriteria resp_ok sw =
     (case fetchFilteredDoctors resp_ok sw of (s, w) \<Rightarrow> (s\<lparr>ca_step := SDoctor\<rparr>, w))"

definition handleSelectDoctor :: "Doctor \<Rightarrow> wizard_state \<Rightarrow> wizard_state" where
  "handleSelectDoctor d s = s\<lparr>ca_selectedDoctor := Some d, ca_step := SDate\<rparr>"

definition ca_fetchBookedSlots ::
  "bool \<Rightarrow> Date \<Rightarrow> wizard_state \<times> io \<Rightarrow> wizard_state \<times> io" where
  "ca_fetchBookedSlots data_ok date sw =
     (case sw of (s, w) \<Rightarrow>
        (case ca_selectedDoctor s of
           None \<Rightarrow> (s, w)
         | Some d \<Rightarrow>
             let w' = emit (SelectBookedSlots (doc_id d) (format_ymd date) Cancelled) w in
             if data_ok
             then (s\<lparr>ca_bookedSlots :=
                       map (take 5) (select_booked (ledger w) (doc_id d) (format_ymd date))\<rparr>, w')
             else (s, w')))"

definition ca_handleDateSelect ::
  "bool \<Rightarrow> Date option \<Rightarrow> wizard_state \<times> io \<Rightarrow> wizard_state \<times> io" where
  "ca_handleDateSelect data_ok date sw =
     (case sw of (s, w) \<Rightarrow>
        let s1 = s\<lparr>ca_selectedDate := date\<rparr> in
        (case date of
           None \<Rightarrow> (s1, w)
         | Some dt \<Rightarrow>
             (case ca_fetchBookedSlots data_ok dt (s1, w) of
                (s2, w2) \<Rightarrow> (s2\<lparr>ca_step := STime\<rparr>, w2))))"

definition ca_handleTimeSelect :: "string \<Rightarrow> wizard_state \<Rightarrow> wizard_state" where
  "ca_handleTimeSelect time s = s\<lparr>ca_selectedTime := Some time, ca_step := SConfirm\<rparr>"

definition ca_handleBooking ::
  "User option \<Rightarrow> pg_error option \<Rightarrow> db_gen \<Rightarrow> bool
     \<Rightarrow> wizard_state \<times> io \<Rightarrow> wizard_state \<times> io" where
  "ca_handleBooking user fault g data_ok sw =
     (case sw of (s, w) \<Rightarrow>
        (case (user, ca_selectedDoctor s, ca_selectedDate s, ca_selectedTime s) of
           (Some u, Some d, Some date, Some time) \<Rightarrow>
             if time = [] then (s, w)
             else
               let p = booking_payload u d date time (ca_notes s);
                   r = ledger_insert fault g (ledger w) p;
                   w1 = emit (InsertAppointment p) (w\<lparr>ledger := snd r\<rparr>);
                   s1 = s\<lparr>ca_loading := False\<rparr>
               in (case fst r of
                     Some e \<Rightarrow>
                       if code e = ''23505''
                       then ca_fetchBookedSlots data_ok date
                              (s1\<lparr>ca_step := STime\<rparr>, emit (ShowToast slot_unavailable_toast) w1)
                       else (s1, emit (ShowToast (booking_failed_toast e)) w1)
                   | None \<Rightarrow>
                       (s1\<lparr>ca_step := SSuccess\<rparr>,
                        emit OnAppointmentCreated (emit (ShowToast (booked_toast d)) w1)))
         | _ \<Rightarrow> (s, w)))"

definition ca_slot_buttons :: "wizard_state \<Rightarrow> (string \<times> bool) list" where
  "ca_slot_buttons s = map (\<lambda>time. (time, time \<in> set (ca_bookedSlots s))) timeSlots"

section \<open>Appointments.tsx: cancelling\<close>

record page_state =
  appointments :: "Appointment list"
  page_loading :: bool
  createDialogOpen :: bool

definition cancel_failed_toast :: toast where
  "cancel_failed_toast = Toast ''Error'' ''Failed to cancel appointment'' True"

definition cancelled_toast :: toast where
  "cancelled_toast =
     Toast ''Appointment Cancelled'' ''Your appointment has been cancelled successfully.'' False"

definition cancelAppointment ::
  "pg_error option \<Rightarrow> string \<Rightarrow> page_state \<times> io \<Rightarrow> page_state \<times> io" where
  "cancelAppointment fault appointmentId sw =
     (case sw of (s, w) \<Rightarrow>
        let r = ledger_update_cancelled fault (ledger w) appointmentId;
            w1 = emit (UpdateStatusCancelled appointmentId) (w\<lparr>ledger := snd r\<rparr>)
        in (case fst r of
              Some e \<Rightarrow> (s, emit (ShowToast cancel_failed_toast) w1)
            | None \<Rightarrow>
                (s\<lparr>appointments :=
                     map (\<lambda>apt. if apt_id apt = appointmentId
                                 then apt\<lparr>status := Cancelled\<rparr> else apt)
                       (appointments s)\<rparr>,
                 emit (ShowToast cancelled_toast) w1)))"

section \<open>Clients acting on the shared ledger\<close>

text \<open>
  One operation of some client on the ledger: a confirmed booking from either dialog, in
  whatever state that dialog is, or a cancellation. A sequence of them is any interleaving
  of the bookings and cancellations of any number of clients.
\<close>

datatype client_op =
    BookViaDialog "User option" "Doctor option" "pg_error option" db_gen bool booking_state
  | BookViaWizard "User option" "pg_error option" db_gen bool wizard_state
  | CancelVia "pg_error option" string page_state

fun client_step :: "client_op \<Rightarrow> io \<Rightarrow> io" where
  "client_step (BookViaDialog u d f g ok s) w = snd (bd_handleBooking u d f g ok (s, w))"
| "client_step (BookViaWizard u f g ok s) w = snd (ca_handleBooking u f g ok (s, w))"
| "client_step (CancelVia f aid s) w = snd (cancelAppointment f aid (s, w))"

fun client_run :: "client_op list \<Rightarrow> io \<Rightarrow> io" where
  "client_run [] w = w"
| "client_run (x # xs) w = client_run xs (client_step x w)"

definition unique_active :: "Appointment list \<Rightarrow> bool" where
  "unique_active db = distinct (map slot_of (filter (\<lambda>a. status a \<noteq> Cancelled) db))"

section \<open>Curax.tsx: sending a chat message\<close>

text \<open>
  The code units that \<open>String.prototype.trim\<close> strips from both ends, ECMAScript's
  WhiteSpace and LineTerminator: U+0009 to U+000D, U+0020, U+00A0, U+1680, U+2000 to
  U+200A, U+2028, U+2029, U+202F, U+205F, U+3000 and U+FEFF.
\<close>

definition is_ws :: "nat \<Rightarrow> bool" where
  "is_ws c =
     ((0x0009 \<le> c \<and> c \<le> 0x000D) \<or> c = 0x0020 \<or> c = 0x00A0 \<or> c = 0x1680
      \<or> (0x2000 \<le> c \<and> c \<le> 0x200A) \<or> c = 0x2028 \<or> c = 0x2029 \<or> c = 0x202F
      \<or> c = 0x205F \<or> c = 0x3000 \<or> c = 0xFEFF)"

definition trim :: "js_string \<Rightarrow> js_string" where
  "trim s = rev (dropWhile is_ws (rev (dropWhile is_ws s)))"

text \<open>The decimal digits of a number, as the template literal renders \<open>Date.now()\<close>.\<close>

fun dec :: "nat \<Rightarrow> string" where
  "dec n = (if n < 10 then [char_of (48 + n)] else dec (n div 10) @ [char_of (48 + n mod 10)])"

datatype chat_event =
    InsertChatMessage string chat_role js_string
  | InvokeCuraxChat js_string string
  | ConsoleError string
  | ChatToast toast

record chat_io =
  chat_messages :: "ChatMessage list"
  chat_trace :: "chat_event list"

definition chat_emit :: "chat_event \<Rightarrow> chat_io \<Rightarrow> chat_io" where
  "chat_emit e w = w\<lparr>chat_trace := chat_trace w @ [e]\<rparr>"

record chat_state =
  messages :: "ChatMessage list"
  input :: js_string
  loading :: bool

text \<open>
  What the outside contributes to one call of \<open>sendMessage\<close>: the clock at the two
  places it is read, whether each insert is accepted (and then the generated id and
  timestamp of the row), and the answer of the gateway, an error or \<open>data.response\<close>.
\<close>

record send_env =
  now1 :: nat
  iso1 :: string
  user_insert :: "db_gen option"
  gateway :: "string + js_string"
  now2 :: nat
  iso2 :: string
  assistant_insert :: "db_gen option"

text \<open>
  An insert into \<open>chat_messages\<close>. The source awaits it and does not look at the result:
  a rejected insert leaves the table as it was and the handler goes on.
\<close>

definition chat_insert ::
  "db_gen option \<Rightarrow> string \<Rightarrow> chat_role \<Rightarrow> js_string \<Rightarrow> chat_io \<Rightarrow> chat_io" where
  "chat_insert accepted uid r c w =
     chat_emit (InsertChatMessage uid r c)
       (case accepted of
          None \<Rightarrow> w
        | Some g \<Rightarrow>
            w\<lparr>chat_messages := chat_messages w @
                 [\<lparr>msg_id = gen_id g, msg_user_id = uid, msg_role = r, msg_content = c,
                   msg_created_at = gen_now g\<rparr>]\<rparr>)"

definition chat_failed_toast :: toast where
  "chat_failed_toast = Toast ''Error'' ''Failed to get response. Please try again.'' True"

definition sendMessage ::
  "User option \<Rightarrow> send_env \<Rightarrow> chat_state \<times> chat_io \<Rightarrow> chat_state \<times> chat_io" where
  "sendMessage user env sw =
     (case sw of (s, w) \<Rightarrow>
        (case user of
           None \<Rightarrow> (s, w)
         | Some u \<Rightarrow>
             if trim (input s) = [] \<or> loading s then (s, w)
             else
               let userMessage = trim (input s);
                   tempUserMsg = \<lparr>msg_id = ''temp-'' @ dec (now1 env), msg_user_id = u,
                                  msg_role = RoleUser, msg_content = userMessage,
                                  msg_created_at = iso1 env\<rparr>;
                   s1 = s\<lparr>input := [], loading := True,
                          messages := messages s @ [tempUserMsg]\<rparr>;
                   w1 = chat_insert (user_insert env) u RoleUser userMessage w;
                   w2 = chat_emit (InvokeCuraxChat userMessage u) w1
               in (case gateway env of
                     Inl err \<Rightarrow>
                       (s1\<lparr>loading := False\<rparr>,
                        chat_emit (ChatToast chat_failed_toast) (chat_emit (ConsoleError err) w2))
                   | Inr assistantMessage \<Rightarrow>
                       let w3 = chat_insert (assistant_insert env) u RoleAssistant
                                  assistantMessage w2;
                           assistantMsg = \<lparr>msg_id = ''temp-assistant-'' @ dec (now2 env),
                                           msg_user_id = u, msg_role = RoleAssistant,
                                           msg_content = assistantMessage,
                                           msg_created_at = iso2 env\<rparr>
                       in (s1\<lparr>messages := messages s1 @ [assistantMsg], loading := False\<rparr>,
                           w3))))"

section \<open>Runs of the booking flow\<close>

text \<open>
  A run of the dialog as its interface lets a user drive it: a day can be clicked only if the
  calendar has not disabled it, a slot only if its button is there and not disabled; then
  the notes are typed and the booking is confirmed. Without a doctor the dialog renders
  nothing.
\<close>

definition bd_flow ::
  "User option \<Rightarrow> Doctor option \<Rightarrow> Date \<Rightarrow> cal_day \<Rightarrow> string \<Rightarrow> string \<Rightarrow> bool
     \<Rightarrow> pg_error option \<Rightarrow> db_gen \<Rightarrow> bool \<Rightarrow> booking_state \<times> io \<Rightarrow> booking_state \<times> io" where
  "bd_flow user doctor now day time n ok1 fault g ok2 sw =
     (if doctor = None \<or> \<not> selectable now day then sw
      else
        (case bd_handleDateSelect doctor ok1 (Some (calendar_day day)) sw of
           (s1, w1) \<Rightarrow>
             if (time, False) \<notin> set (bd_slot_buttons s1) then (s1, w1)
             else bd_handleBooking user doctor fault g ok2
                    ((bd_handleTimeSelect time s1)\<lparr>bd_notes := n\<rparr>, w1)))"

text \<open>The wizard from its date step on, and the whole wizard: criteria, the \<open>k\<close>-th card, the rest.\<close>

definition ca_book_flow ::
  "User option \<Rightarrow> Date \<Rightarrow> cal_day \<Rightarrow> string \<Rightarrow> string \<Rightarrow> bool
     \<Rightarrow> pg_error option \<Rightarrow> db_gen \<Rightarrow> bool \<Rightarrow> wizard_state \<times> io \<Rightarrow> wizard_state \<times> io" where
  "ca_book_flow user now day time n ok1 fault g ok2 sw =
     (if \<not> selectable now day then sw
      else
        (case ca_handleDateSelect ok1 (Some (calendar_day day)) sw of
           (s2, w2) \<Rightarrow>
             if (time, False) \<notin> set (ca_slot_buttons s2) then (s2, w2)
             else ca_handleBooking user fault g ok2
                    ((ca_handleTimeSelect time s2)\<lparr>ca_notes := n\<rparr>, w2)))"

definition ca_flow ::
  "User option \<Rightarrow> Date \<Rightarrow> bool \<Rightarrow> nat \<Rightarrow> cal_day \<Rightarrow> string \<Rightarrow> string \<Rightarrow> bool
     \<Rightarrow> pg_error option \<Rightarrow> db_gen \<Rightarrow> bool \<Rightarrow> wizard_state \<times> io \<Rightarrow> wizard_state \<times> io" where
  "ca_flow user now ok0 k day time n ok1 fault g ok2 sw =
     (case handleApplyCriteria ok0 sw of
        (s0, w0) \<Rightarrow>
          if length (ca_doctors s0) \<le> k then (s0, w0)
          else ca_book_flow user now day time n ok1 fault g ok2
                 (handleSelectDoctor (ca_doctors s0 ! k) s0, w0))"

text \<open>What a doctor's card in the wizard shows (lines 311 to 342).\<close>

definition doctor_card :: "Doctor \<Rightarrow> string \<times> string \<times> rat \<times> string \<times> int \<times> rat" where
  "doctor_card d =
     (doc_id d, doc_name d, rating d, specialization d, experience_years d, consultation_fee d)"

text \<open>
  What can be observed of the wizard: its step, the cards, the chosen date and time, the
  slot buttons with their flags, every request, toast and callback, and the ledger.
\<close>

definition ca_observe ::
  "wizard_state \<times> io \<Rightarrow>
     ca_step \<times> (string \<times> string \<times> rat \<times> string \<times> int \<times> rat) list \<times> Date option
       \<times> string option \<times> (string \<times> bool) list \<times> event list \<times> Appointment list" where
  "ca_observe sw =
     (ca_step (fst sw), map doctor_card (ca_doctors (fst sw)), ca_selectedDate (fst sw),
      ca_selectedTime (fst sw), ca_slot_buttons (fst sw), trace (snd sw), ledger (snd sw))"

text \<open>The same doctor with another weekly availability map.\<close>

definition with_availability :: "(Doctor \<Rightarrow> string \<rightharpoonup> bool) \<Rightarrow> Doctor \<Rightarrow> Doctor" where
  "with_availability av d = d\<lparr>availability := av d\<rparr>"

section \<open>A booking scenario\<close>

text \<open>
  Doctor D, a cardiologist with fee 100, rating 4.5 and ten years of experience, whose
  availability map marks Tuesday as unavailable; 2026-03-10, a Tuesday, is day 20522.
\<close>

definition doctorD :: Doctor where
  "doctorD =
     \<lparr>doc_id = ''D'', doc_user_id = None, doc_name = ''Dr. D'',
      specialization = ''Cardiologist'', experience_years = 10, bio = None,
      avatar_url = None, availability = [''Tuesday'' \<mapsto> False], rating = 9 / 2,
      consultation_fee = 100, is_featured = False, doc_created_at = ''2026-01-01''\<rparr>"

definition doctorE :: Doctor where
  "doctorE =
     \<lparr>doc_id = ''E'', doc_user_id = None, doc_name = ''Dr. E'',
      specialization = ''Neurologist'', experience_years = 3, bio = None,
      avatar_url = None, availability = Map.empty, rating = 5,
      consultation_fee = 120, is_featured = True, doc_created_at = ''2026-01-02''\<rparr>"

definition march10 :: Date where
  "march10 = calendar_day 20522"

definition gen1 :: db_gen where
  "gen1 = \<lparr>gen_id = ''a1'', gen_now = ''2026-03-01T10:00:00Z''\<rparr>"

definition gen2 :: db_gen where
  "gen2 = \<lparr>gen_id = ''a2'', gen_now = ''2026-03-01T10:00:01Z''\<rparr>"

definition io_empty :: io where
  "io_empty = \<lparr>ledger = [], directory = [doctorD, doctorE], trace = []\<rparr>"

definition row1 :: Appointment where
  "row1 =
     \<lparr>apt_id = ''a1'', patient_id = ''p1'', doctor_id = ''D'', appointment_date = 20522,
      appointment_time = ''09:00'', status = Scheduled, apt_notes = Some ''checkup'',
      reminder_sent = False, created_at = ''2026-03-01T10:00:00Z'',
      updated_at = ''2026-03-01T10:00:00Z'', apt_doctor = None\<rparr>"

definition io_taken :: io where
  "io_taken = \<lparr>ledger = [row1], directory = [doctorD, doctorE], trace = []\<rparr>"

text \<open>
  A ledger with five rows, the times as the table returns them: D is taken on 2026-03-10 at
  09:00 and at 14:00; the other rows are a cancelled one, one of doctor E and one of the
  next day.
\<close>

definition io_busy :: io where
  "io_busy =
     \<lparr>ledger =
        [row1,
         row1\<lparr>apt_id := ''a4'', appointment_time := ''10:00:00'', status := Cancelled\<rparr>,
         row1\<lparr>apt_id := ''a5'', doctor_id := ''E'', appointment_time := ''10:30:00''\<rparr>,
         row1\<lparr>apt_id := ''a6'', appointment_date := 20523, appointment_time := ''11:00:00''\<rparr>,
         row1\<lparr>apt_id := ''a7'', appointment_time := ''14:00:00'', status := Confirmed\<rparr>],
      directory = [doctorD, doctorE], trace = []\<rparr>"

definition bd_at_confirm :: "string \<Rightarrow> booking_state" where
  "bd_at_confirm time =
     \<lparr>bd_step = BConfirm, bd_selectedDate = Some march10, bd_selectedTime = Some time,
      bd_notes = ''checkup'', bd_loading = False, bd_bookedSlots = []\<rparr>"

definition ca_at_confirm :: "string \<Rightarrow> wizard_state" where
  "ca_at_confirm time =
     \<lparr>ca_step = SConfirm, ca_selectedSpecialization = ''Cardiologist'',
      ca_maxFee = 150, ca_minRating = 4, ca_minExperience = 5, ca_doctors = [doctorD],
      ca_loadingDoctors = False, ca_selectedDoctor = Some doctorD,
      ca_selectedDate = Some march10, ca_selectedTime = Some time,
      ca_notes = ''checkup'', ca_loading = False, ca_bookedSlots = []\<rparr>"

definition network_error :: pg_error where
  "network_error = \<lparr>code = [], message = ''TypeError: Failed to fetch''\<rparr>"

definition gen3 :: db_gen where
  "gen3 = \<lparr>gen_id = ''a3'', gen_now = ''2026-03-01T10:00:02Z''\<rparr>"

definition page_of :: "Appointment list \<Rightarrow> page_state" where
  "page_of apts = \<lparr>appointments = apts, page_loading = False, createDialogOpen = False\<rparr>"

text \<open>
  Patient p1 books 09:00 with D; p2 tries the same slot and then books 09:30; p1 cancels;
  p3 books the 09:00 that became free.
\<close>

definition demo_ops :: "client_op list" where
  "demo_ops =
     [BookViaDialog (Some ''p1'') (Some doctorD) None gen1 True (bd_at_confirm ''09:00''),
      BookViaWizard (Some ''p2'') None gen2 True (ca_at_confirm ''09:00''),
      BookViaWizard (Some ''p2'') None gen2 True (ca_at_confirm ''09:30''),
      CancelVia None ''a1'' (page_of [row1]),
      BookViaDialog (Some ''p3'') (Some doctorD) None gen3 True (bd_at_confirm ''09:00'')]"

definition chat_at :: "js_string \<Rightarrow> chat_state" where
  "chat_at txt = \<lparr>messages = [], input = txt, loading = False\<rparr>"

definition chat_io_empty :: chat_io where
  "chat_io_empty = \<lparr>chat_messages = [], chat_trace = []\<rparr>"

text \<open>An environment in which the gateway answers with an error.\<close>

definition gateway_down :: send_env where
  "gateway_down =
     \<lparr>now1 = 1772359200000, iso1 = ''2026-03-01T10:00:00.000Z'', user_insert = Some gen1,
      gateway = Inl ''Edge Function returned a non-2xx status code'',
      now2 = 1772359201000, iso2 = ''2026-03-01T10:00:01.000Z'', assistant_insert = Some gen2\<rparr>"

declare dec.simps [simp del]

lemmas scenario_defs = doctorD_def doctorE_def march10_def gen1_def gen2_def gen3_def
  io_empty_def row1_def io_taken_def bd_at_confirm_def ca_at_confirm_def network_error_def
  calendar_day_def page_of_def demo_ops_def io_busy_def

lemmas handler_defs = bd_handleBooking_def ca_handleBooking_def bd_fetchBookedSlots_def
  ca_fetchBookedSlots_def emit_def booking_payload_def notes_or_null_def format_ymd_def
  ledger_insert_def slot_taken_def slot_of_def select_booked_def unique_violation_def
  slot_unavailable_toast_def booking_failed_toast_def booked_toast_def
  cancelAppointment_def ledger_update_cancelled_def cancelled_toast_def cancel_failed_toast_def

section \<open>Dates\<close>

lemma selectable_unfold:
  "selectable now d = (\<not> d < fst now \<and> \<not> fst now + 30 < d)"
  by (auto simp: selectable_def disabled_def isBefore_def startOfToday_def startOfDay_def
      addDays_def calendar_day_def)

section \<open>The ledger keeps active slots unique\<close>

lemma unique_active_append:
  "unique_active db \<Longrightarrow> \<not> slot_taken db (slot_of a) \<Longrightarrow> unique_active (db @ [a])"
  by (auto simp: unique_active_def slot_taken_def list_ex_iff)

lemma ledger_insert_unique:
  "unique_active db \<Longrightarrow> unique_active (snd (ledger_insert f g db p))"
  by (auto simp: ledger_insert_def slot_of_def intro!: unique_active_append split: option.splits)

lemma filter_cancel:
  "filter (\<lambda>a. status a \<noteq> Cancelled)
     (map (\<lambda>a. if apt_id a = aid then a\<lparr>status := Cancelled\<rparr> else a) db)
   = filter (\<lambda>a. status a \<noteq> Cancelled \<and> apt_id a \<noteq> aid) db"
  by (induction db) auto

lemma distinct_map_filter_sub:
  "distinct (map f (filter P xs)) \<Longrightarrow> distinct (map f (filter (\<lambda>x. P x \<and> Q x) xs))"
  by (induction xs) (auto split: if_splits)

lemma ledger_update_unique:
  "unique_active db \<Longrightarrow> unique_active (snd (ledger_update_cancelled f db aid))"
  by (auto simp: ledger_update_cancelled_def unique_active_def filter_cancel
      intro: distinct_map_filter_sub split: option.splits)

lemma ledger_insert_error_keeps:
  "fst (ledger_insert fault g db p) = Some e \<Longrightarrow> snd (ledger_insert fault g db p) = db"
  by (auto simp: ledger_insert_def split: option.splits if_splits)

lemma ledger_insert_ok_row:
  "fst (ledger_insert fault g db p) = None \<Longrightarrow>
   snd (ledger_insert fault g db p) = db @
     [\<lparr>apt_id = gen_id g, patient_id = p_patient_id p, doctor_id = p_doctor_id p,
       appointment_date = p_appointment_date p, appointment_time = p_appointment_time p,
       status = Scheduled, apt_notes = p_notes p, reminder_sent = False,
       created_at = gen_now g, updated_at = gen_now g, apt_doctor = None\<rparr>]"
  by (auto simp: ledger_insert_def split: option.splits if_splits)

text \<open>Fetching the booked slots reads the ledger and leaves it alone.\<close>

lemma bd_fetch_ledger: "ledger (snd (bd_fetchBookedSlots d ok dt (s, w))) = ledger w"
  by (auto simp: bd_fetchBookedSlots_def emit_def Let_def split: option.splits)

lemma ca_fetch_ledger: "ledger (snd (ca_fetchBookedSlots ok dt (s, w))) = ledger w"
  by (auto simp: ca_fetchBookedSlots_def emit_def Let_def split: option.splits)

text \<open>The only way a booking handler changes the ledger is one insert.\<close>

lemma bd_booking_ledger:
  "ledger (snd (bd_handleBooking u d f g ok (s, w))) = ledger w \<or>
   (\<exists>p. ledger (snd (bd_handleBooking u d f g ok (s, w))) = snd (ledger_insert f g (ledger w) p))"
  by (auto simp: bd_handleBooking_def Let_def emit_def bd_fetch_ledger split: option.splits)

lemma ca_booking_ledger:
  "ledger (snd (ca_handleBooking u f g ok (s, w))) = ledger w \<or>
   (\<exists>p. ledger (snd (ca_handleBooking u f g ok (s, w))) = snd (ledger_insert f g (ledger w) p))"
  by (auto simp: ca_handleBooking_def Let_def emit_def ca_fetch_ledger split: option.splits)

lemma cancel_ledger:
  "ledger (snd (cancelAppointment f aid (s, w))) = snd (ledger_update_cancelled f (ledger w) aid)"
  by (auto simp: cancelAppointment_def Let_def emit_def split: option.splits)

lemma client_step_unique:
  assumes "unique_active (ledger w)"
  shows "unique_active (ledger (client_step x w))"
proof (cases x)
  case (BookViaDialog u d f g ok s)
  then show ?thesis
    using assms bd_booking_ledger [of u d f g ok s w] by (auto simp: ledger_insert_unique)
next
  case (BookViaWizard u f g ok s)
  then show ?thesis
    using assms ca_booking_ledger [of u f g ok s w] by (auto simp: ledger_insert_unique)
next
  case (CancelVia f aid s)
  then show ?thesis
    using assms by (simp add: cancel_ledger ledger_update_unique)
qed

lemma client_run_unique:
  "unique_active (ledger w) \<Longrightarrow> unique_active (ledger (client_run ops w))"
  by (induction ops arbitrary: w) (auto simp: client_step_unique)

lemma distinct_map_filter_nth:
  "distinct (map f (filter P xs)) \<Longrightarrow> i < j \<Longrightarrow> j < length xs \<Longrightarrow> P (xs ! i) \<Longrightarrow> P (xs ! j)
     \<Longrightarrow> f (xs ! i) \<noteq> f (xs ! j)"
proof (induction xs arbitrary: i j)
  case Nil
  then show ?case by simp
next
  case (Cons x xs)
  obtain j' where j: "j = Suc j'" using Cons.prems(2) by (cases j) auto
  show ?case
  proof (cases i)
    case 0
    have "xs ! j' \<in> set (filter P xs)" using Cons.prems j by simp
    then have "f (xs ! j') \<in> f ` set (filter P xs)" by blast
    moreover have "f x \<notin> f ` set (filter P xs)" using Cons.prems 0 by simp
    ultimately show ?thesis using 0 j by auto
  next
    case (Suc i')
    have "distinct (map f (filter P xs))" using Cons.prems(1) by (simp split: if_splits)
    then show ?thesis using Cons.IH [of i' j'] Cons.prems Suc j by simp
  qed
qed

lemma unique_active_nth:
  assumes "unique_active db" "i < length db" "j < length db" "i \<noteq> j"
    "status (db ! i) \<noteq> Cancelled" "status (db ! j) \<noteq> Cancelled"
  shows "slot_of (db ! i) \<noteq> slot_of (db ! j)"
proof -
  have ord: "slot_of (db ! a) \<noteq> slot_of (db ! b)"
    if "a < b" "b < length db" "status (db ! a) \<noteq> Cancelled" "status (db ! b) \<noteq> Cancelled"
    for a b
    using distinct_map_filter_nth [of slot_of "\<lambda>a. status a \<noteq> Cancelled" db a b] that assms(1)
    by (simp add: unique_active_def)
  show ?thesis
  proof (cases "i < j")
    case True
    then show ?thesis using ord [of i j] assms by simp
  next
    case False
    then have "j < i" using assms(4) by simp
    then show ?thesis using ord [of j i] assms by fastforce
  qed
qed

text \<open>
  C1. Start from a ledger in which no two rows that are not cancelled share their
  (doctor, date, time), and let any sequence of bookings, from either dialog and in any
  dialog state, and of cancellations act on it. Then any two distinct rows \<open>i\<close> and \<open>j\<close> of
  the resulting ledger that are both not cancelled differ in (doctor, date, time). The
  insert of the ledger refuses the taken slot whatever the client believed about it.
\<close>

theorem active_slots_unique:
  assumes "unique_active (ledger start)"
    and "db = ledger (client_run ops start)"
    and "i < length db" and "j < length db" and "i \<noteq> j"
    and "status (db ! i) \<noteq> Cancelled" and "status (db ! j) \<noteq> Cancelled"
  shows "(doctor_id (db ! i), appointment_date (db ! i), appointment_time (db ! i))
       \<noteq> (doctor_id (db ! j), appointment_date (db ! j), appointment_time (db ! j))"
proof -
  have "unique_active db"
    using assms(1,2) by (simp add: client_run_unique)
  then have "slot_of (db ! i) \<noteq> slot_of (db ! j)"
    using assms(3-7) by (rule unique_active_nth)
  then show ?thesis by (simp add: slot_of_def)
qed

text \<open>
  The scenario: the second booking of 09:00 is refused, 09:30 is booked, the first
  appointment is cancelled and 09:00 is booked again; rows 1 and 2 are the active ones.
\<close>

theorem active_slots_unique_witness:
  "unique_active (ledger io_empty)
   \<and> map (\<lambda>a. (apt_id a, patient_id a, status a, appointment_time a))
        (ledger (client_run demo_ops io_empty))
       = [(''a1'', ''p1'', Cancelled, ''09:00''), (''a2'', ''p2'', Scheduled, ''09:30''),
          (''a3'', ''p3'', Scheduled, ''09:00'')]
   \<and> (doctor_id (ledger (client_run demo_ops io_empty) ! 1),
       appointment_date (ledger (client_run demo_ops io_empty) ! 1),
       appointment_time (ledger (client_run demo_ops io_empty) ! 1))
     \<noteq> (doctor_id (ledger (client_run demo_ops io_empty) ! 2),
         appointment_date (ledger (client_run demo_ops io_empty) ! 2),
         appointment_time (ledger (client_run demo_ops io_empty) ! 2))"
proof -
  let ?db = "ledger (client_run demo_ops io_empty)"
  have u: "unique_active (ledger io_empty)"
    by (simp add: unique_active_def io_empty_def)
  have run: "map (\<lambda>a. (apt_id a, patient_id a, status a, appointment_time a)) ?db
       = [(''a1'', ''p1'', Cancelled, ''09:00''), (''a2'', ''p2'', Scheduled, ''09:30''),
          (''a3'', ''p3'', Scheduled, ''09:00'')]"
    by (simp add: handler_defs scenario_defs Let_def)
  have len: "length ?db = 3"
    using arg_cong [OF run, of length] by simp
  have s1: "status (?db ! 1) \<noteq> Cancelled"
    using arg_cong [OF run, of "\<lambda>xs. fst (snd (snd (xs ! 1)))"] len by simp
  have s2: "status (?db ! 2) \<noteq> Cancelled"
    using arg_cong [OF run, of "\<lambda>xs. fst (snd (snd (xs ! 2)))"] len by simp
  have "(doctor_id (?db ! 1), appointment_date (?db ! 1), appointment_time (?db ! 1))
     \<noteq> (doctor_id (?db ! 2), appointment_date (?db ! 2), appointment_time (?db ! 2))"
    using active_slots_unique [OF u refl, where ops = demo_ops and i = 1 and j = 2] len s1 s2
    by simp
  then show ?thesis using u run by simp
qed

section \<open>Confirming a booking\<close>

text \<open>
  C2. In either dialog, with a user, a doctor, a date and a time chosen, when the insert
  comes back with an error whose code is 23505, the handler shows the toast
  'Slot Unavailable', sets the step to \<open>time\<close>, and asks the ledger again for the booked
  slots of the same doctor and date: the trace gains exactly the insert, that toast and
  the select of the times of that doctor and date whose status is not cancelled, in this
  order. The doctor and the date stay chosen and the ledger is unchanged. When the select
  answers, the booked slots become the first five characters of the time of every row of
  the ledger that has this doctor, this date and a status other than cancelled, and of no
  other row; when it does not answer they stay as they were.
\<close>

theorem conflict_recovery:
  assumes "fst (ledger_insert fault g (ledger w)
                  \<lparr>p_patient_id = u, p_doctor_id = doc_id d,
                   p_appointment_date = format_ymd date, p_appointment_time = time,
                   p_notes = (if n = [] then None else Some n)\<rparr>) = Some e"
    and "code e = ''23505''" and "time \<noteq> []"
    and "bd_selectedDate sb = Some date" and "bd_selectedTime sb = Some time" and "bd_notes sb = n"
    and "ca_selectedDoctor sc = Some d" and "ca_selectedDate sc = Some date"
    and "ca_selectedTime sc = Some time" and "ca_notes sc = n"
  shows "(case bd_handleBooking (Some u) (Some d) fault g data_ok (sb, w) of (s', w') \<Rightarrow>
             bd_step s' = BTime
           \<and> bd_selectedDate s' = Some date
           \<and> bd_bookedSlots s' =
               (if data_ok
                then map (\<lambda>a. take 5 (appointment_time a))
                       (filter (\<lambda>a. doctor_id a = doc_id d
                                    \<and> appointment_date a = format_ymd date
                                    \<and> status a \<noteq> Cancelled) (ledger w))
                else bd_bookedSlots sb)
           \<and> ledger w' = ledger w
           \<and> trace w' = trace w @
               [InsertAppointment
                  \<lparr>p_patient_id = u, p_doctor_id = doc_id d,
                   p_appointment_date = format_ymd date, p_appointment_time = time,
                   p_notes = (if n = [] then None else Some n)\<rparr>,
                ShowToast (Toast ''Slot Unavailable''
                  ''This time slot has just been booked. Please choose another.'' True),
                SelectBookedSlots (doc_id d) (format_ymd date) Cancelled])
       \<and> (case ca_handleBooking (Some u) fault g data_ok (sc, w) of (s', w') \<Rightarrow>
             ca_step s' = STime
           \<and> ca_selectedDoctor s' = Some d
           \<and> ca_selectedDate s' = Some date
           \<and> ca_bookedSlots s' =
               (if data_ok
                then map (\<lambda>a. take 5 (appointment_time a))
                       (filter (\<lambda>a. doctor_id a = doc_id d
                                    \<and> appointment_date a = format_ymd date
                                    \<and> status a \<noteq> Cancelled) (ledger w))
                else ca_bookedSlots sc)
           \<and> ledger w' = ledger w
           \<and> trace w' = trace w @
               [InsertAppointment
                  \<lparr>p_patient_id = u, p_doctor_id = doc_id d,
                   p_appointment_date = format_ymd date, p_appointment_time = time,
                   p_notes = (if n = [] then None else Some n)\<rparr>,
                ShowToast (Toast ''Slot Unavailable''
                  ''This time slot has just been booked. Please choose another.'' True),
                SelectBookedSlots (doc_id d) (format_ymd date) Cancelled])"
proof -
  let ?p = "booking_payload u d date time n"
  have p: "?p = \<lparr>p_patient_id = u, p_doctor_id = doc_id d,
                   p_appointment_date = format_ymd date, p_appointment_time = time,
                   p_notes = (if n = [] then None else Some n)\<rparr>"
    by (simp add: booking_payload_def notes_or_null_def)
  have e: "fst (ledger_insert fault g (ledger w) ?p) = Some e"
    using assms(1) by (simp add: p)
  have k: "snd (ledger_insert fault g (ledger w) ?p) = ledger w"
    using e by (rule ledger_insert_error_keeps)
  have q: "map (take 5) (select_booked db a b)
      = map (\<lambda>r. take 5 (appointment_time r))
          (filter (\<lambda>r. doctor_id r = a \<and> appointment_date r = b \<and> status r \<noteq> Cancelled) db)"
    for db a b
    by (simp add: select_booked_def comp_def)
  have bd: "bd_handleBooking (Some u) (Some d) fault g data_ok (sb, w)
      = bd_fetchBookedSlots (Some d) data_ok date
          (sb\<lparr>bd_loading := False, bd_step := BTime\<rparr>,
           emit (ShowToast slot_unavailable_toast) (emit (InsertAppointment ?p) w))"
    using assms(2-6) e k by (simp add: bd_handleBooking_def Let_def emit_def)
  have ca: "ca_handleBooking (Some u) fault g data_ok (sc, w)
      = ca_fetchBookedSlots data_ok date
          (sc\<lparr>ca_loading := False, ca_step := STime\<rparr>,
           emit (ShowToast slot_unavailable_toast) (emit (InsertAppointment ?p) w))"
    using assms(2,3,7-10) e k by (simp add: ca_handleBooking_def Let_def emit_def)
  show ?thesis
    using assms(4,7,8)
    by (simp add: bd ca bd_fetchBookedSlots_def ca_fetchBookedSlots_def emit_def Let_def q p
        slot_unavailable_toast_def)
qed

text \<open>
  Patient p2 confirms 09:00 with D on the ledger of five rows: the insert is refused, and
  of the five rows the two of D on that day that are not cancelled are the booked slots.
\<close>

theorem conflict_recovery_witness:
  "fst (ledger_insert None gen2 (ledger io_busy)
          \<lparr>p_patient_id = ''p2'', p_doctor_id = doc_id doctorD,
           p_appointment_date = format_ymd march10, p_appointment_time = ''09:00'',
           p_notes = (if ''checkup'' = [] then None else Some ''checkup'')\<rparr>)
     = Some unique_violation
   \<and> code unique_violation = ''23505''
   \<and> bd_step (fst (bd_handleBooking (Some ''p2'') (Some doctorD) None gen2 True
                      (bd_at_confirm ''09:00'', io_busy))) = BTime
   \<and> bd_bookedSlots (fst (bd_handleBooking (Some ''p2'') (Some doctorD) None gen2 True
                      (bd_at_confirm ''09:00'', io_busy))) = [''09:00'', ''14:00'']
   \<and> ca_step (fst (ca_handleBooking (Some ''p2'') None gen2 True
                      (ca_at_confirm ''09:00'', io_busy))) = STime
   \<and> ca_bookedSlots (fst (ca_handleBooking (Some ''p2'') None gen2 True
                      (ca_at_confirm ''09:00'', io_busy))) = [''09:00'', ''14:00'']
   \<and> trace (snd (ca_handleBooking (Some ''p2'') None gen2 True
                      (ca_at_confirm ''09:00'', io_busy)))
       = [InsertAppointment
            \<lparr>p_patient_id = ''p2'', p_doctor_id = ''D'', p_appointment_date = 20522,
             p_appointment_time = ''09:00'', p_notes = Some ''checkup''\<rparr>,
          ShowToast (Toast ''Slot Unavailable''
            ''This time slot has just been booked. Please choose another.'' True),
          SelectBookedSlots ''D'' 20522 Cancelled]"
proof -
  have h1: "fst (ledger_insert None gen2 (ledger io_busy)
          \<lparr>p_patient_id = ''p2'', p_doctor_id = doc_id doctorD,
           p_appointment_date = format_ymd march10, p_appointment_time = ''09:00'',
           p_notes = (if ''checkup'' = [] then None else Some ''checkup'')\<rparr>)
     = Some unique_violation"
    by (simp add: ledger_insert_def slot_taken_def slot_of_def format_ymd_def scenario_defs)
  have h2: "code unique_violation = ''23505''"
    by (simp add: unique_violation_def)
  show ?thesis
    using conflict_recovery [OF h1 h2, where sb = "bd_at_confirm ''09:00''"
        and sc = "ca_at_confirm ''09:00''" and data_ok = True] h1 h2
    by (simp add: scenario_defs format_ymd_def split: prod.splits)
qed

text \<open>
  C5, as the code has it. When the insert succeeds, both dialogs set the step to
  \<open>success\<close> and show the toast 'Appointment Booked!'. The criteria-driven wizard then
  calls \<open>onAppointmentCreated\<close>, which the appointments page binds to the refresh of its
  list; the dialog with a pre-selected doctor has no such callback and ends with the toast.
\<close>

theorem booking_success:
  assumes "fst (ledger_insert fault g (ledger w) (booking_payload u d date time n)) = None"
    and "time \<noteq> []"
    and "bd_selectedDate sb = Some date" and "bd_selectedTime sb = Some time" and "bd_notes sb = n"
    and "ca_selectedDoctor sc = Some d" and "ca_selectedDate sc = Some date"
    and "ca_selectedTime sc = Some time" and "ca_notes sc = n"
  shows "(case bd_handleBooking (Some u) (Some d) fault g data_ok (sb, w) of (s', w') \<Rightarrow>
             bd_step s' = BSuccess
           \<and> trace w' = trace w @
               [InsertAppointment (booking_payload u d date time n),
                ShowToast (booked_toast d)])
       \<and> (case ca_handleBooking (Some u) fault g data_ok (sc, w) of (s', w') \<Rightarrow>
             ca_step s' = SSuccess
           \<and> trace w' = trace w @
               [InsertAppointment (booking_payload u d date time n),
                ShowToast (booked_toast d),
                OnAppointmentCreated])"
  using assms
  by (simp add: bd_handleBooking_def ca_handleBooking_def emit_def Let_def)

theorem booking_success_witness:
  "fst (ledger_insert None gen1 (ledger io_empty)
          (booking_payload ''p1'' doctorD march10 ''09:00'' ''checkup'')) = None
   \<and> bd_step (fst (bd_handleBooking (Some ''p1'') (Some doctorD) None gen1 True
                      (bd_at_confirm ''09:00'', io_empty))) = BSuccess
   \<and> ca_step (fst (ca_handleBooking (Some ''p1'') None gen1 True
                      (ca_at_confirm ''09:00'', io_empty))) = SSuccess
   \<and> last (trace (snd (ca_handleBooking (Some ''p1'') None gen1 True
                      (ca_at_confirm ''09:00'', io_empty)))) = OnAppointmentCreated"
proof -
  have h1: "fst (ledger_insert None gen1 (ledger io_empty)
          (booking_payload ''p1'' doctorD march10 ''09:00'' ''checkup'')) = None"
    by (simp add: handler_defs scenario_defs)
  show ?thesis
    using booking_success [OF h1, of "bd_at_confirm ''09:00''" "ca_at_confirm ''09:00''" True] h1
    by (simp add: scenario_defs split: prod.splits)
qed

text \<open>
  C5 as stated fails for the dialog with a pre-selected doctor: patient p1 books 09:00 with
  D on an empty ledger, the insert succeeds, and no notification of the surrounding page
  is in the trace.
\<close>

theorem dialog_success_without_refresh_counterexample:
  "\<not> (fst (ledger_insert None gen1 (ledger io_empty)
             (booking_payload ''p1'' doctorD march10 ''09:00'' ''checkup'')) = None
       \<longrightarrow> (case bd_handleBooking (Some ''p1'') (Some doctorD) None gen1 True
                     (bd_at_confirm ''09:00'', io_empty) of
              (s', w') \<Rightarrow> bd_step s' = BSuccess \<and> OnAppointmentCreated \<in> set (trace w')))"
  by (simp add: handler_defs scenario_defs Let_def)

text \<open>
  C6. When the insert of a confirmed booking succeeds, in either dialog, the ledger is the
  old ledger followed by one new row; that row has status scheduled, the acting patient,
  and the chosen doctor, date and time. Neither dialog sends a status: the value is the
  initial one of the table.
\<close>

theorem new_row_scheduled:
  assumes "fst (ledger_insert fault g (ledger w) (booking_payload u d date time n)) = None"
    and "time \<noteq> []"
    and "bd_selectedDate sb = Some date" and "bd_selectedTime sb = Some time" and "bd_notes sb = n"
    and "ca_selectedDoctor sc = Some d" and "ca_selectedDate sc = Some date"
    and "ca_selectedTime sc = Some time" and "ca_notes sc = n"
  shows "(case bd_handleBooking (Some u) (Some d) fault g data_ok (sb, w) of (s', w') \<Rightarrow>
            \<exists>row. ledger w' = ledger w @ [row] \<and> status row = Scheduled
                 \<and> patient_id row = u \<and> slot_of row = (doc_id d, format_ymd date, time))
       \<and> (case ca_handleBooking (Some u) fault g data_ok (sc, w) of (s', w') \<Rightarrow>
            \<exists>row. ledger w' = ledger w @ [row] \<and> status row = Scheduled
                 \<and> patient_id row = u \<and> slot_of row = (doc_id d, format_ymd date, time))"
  using assms ledger_insert_ok_row [OF assms(1)]
  by (simp add: bd_handleBooking_def ca_handleBooking_def emit_def Let_def slot_of_def
      booking_payload_def)

theorem new_row_scheduled_witness:
  "fst (ledger_insert None gen1 (ledger io_empty)
          (booking_payload ''p1'' doctorD march10 ''09:00'' ''checkup'')) = None
   \<and> map status (ledger (snd (bd_handleBooking (Some ''p1'') (Some doctorD) None gen1 True
                      (bd_at_confirm ''09:00'', io_empty)))) = [Scheduled]
   \<and> map status (ledger (snd (ca_handleBooking (Some ''p1'') None gen1 True
                      (ca_at_confirm ''09:00'', io_empty)))) = [Scheduled]"
proof -
  have h1: "fst (ledger_insert None gen1 (ledger io_empty)
          (booking_payload ''p1'' doctorD march10 ''09:00'' ''checkup'')) = None"
    by (simp add: handler_defs scenario_defs)
  show ?thesis
    using new_row_scheduled [OF h1, of "bd_at_confirm ''09:00''" "ca_at_confirm ''09:00''" True] h1
    by (auto simp: scenario_defs split: prod.splits)
qed

text \<open>
  C7. In either dialog at its \<open>confirm\<close> step, when the insert comes back with an error
  whose code is not 23505, the handler shows the toast 'Booking Failed' carrying the
  message of the error and changes nothing else: the step is still \<open>confirm\<close>, doctor,
  date, time and notes are as they were, and the ledger is unchanged.
\<close>

theorem other_failure_stays:
  assumes "fst (ledger_insert fault g (ledger w) (booking_payload u d date time n)) = Some e"
    and "code e \<noteq> ''23505''" and "time \<noteq> []"
    and "bd_step sb = BConfirm"
    and "bd_selectedDate sb = Some date" and "bd_selectedTime sb = Some time" and "bd_notes sb = n"
    and "ca_step sc = SConfirm"
    and "ca_selectedDoctor sc = Some d" and "ca_selectedDate sc = Some date"
    and "ca_selectedTime sc = Some time" and "ca_notes sc = n"
  shows "(case bd_handleBooking (Some u) (Some d) fault g data_ok (sb, w) of (s', w') \<Rightarrow>
             s' = sb\<lparr>bd_loading := False\<rparr>
           \<and> bd_step s' = BConfirm
           \<and> ledger w' = ledger w
           \<and> trace w' = trace w @
               [InsertAppointment (booking_payload u d date time n),
                ShowToast (Toast ''Booking Failed'' (message e) True)])
       \<and> (case ca_handleBooking (Some u) fault g data_ok (sc, w) of (s', w') \<Rightarrow>
             s' = sc\<lparr>ca_loading := False\<rparr>
           \<and> ca_step s' = SConfirm
           \<and> ledger w' = ledger w
           \<and> trace w' = trace w @
               [InsertAppointment (booking_payload u d date time n),
                ShowToast (Toast ''Booking Failed'' (message e) True)])"
  using assms ledger_insert_error_keeps [OF assms(1)]
  by (simp add: bd_handleBooking_def ca_handleBooking_def emit_def Let_def
      booking_failed_toast_def)

theorem other_failure_stays_witness:
  "fst (ledger_insert (Some network_error) gen1 (ledger io_empty)
          (booking_payload ''p1'' doctorD march10 ''09:00'' ''checkup'')) = Some network_error
   \<and> code network_error \<noteq> ''23505''
   \<and> fst (bd_handleBooking (Some ''p1'') (Some doctorD) (Some network_error) gen1 True
            (bd_at_confirm ''09:00'', io_empty)) = bd_at_confirm ''09:00''
   \<and> fst (ca_handleBooking (Some ''p1'') (Some network_error) gen1 True
            (ca_at_confirm ''09:00'', io_empty)) = ca_at_confirm ''09:00''
   \<and> trace (snd (ca_handleBooking (Some ''p1'') (Some network_error) gen1 True
            (ca_at_confirm ''09:00'', io_empty))) =
       [InsertAppointment (booking_payload ''p1'' doctorD march10 ''09:00'' ''checkup''),
        ShowToast (Toast ''Booking Failed'' ''TypeError: Failed to fetch'' True)]"
proof -
  have h1: "fst (ledger_insert (Some network_error) gen1 (ledger io_empty)
          (booking_payload ''p1'' doctorD march10 ''09:00'' ''checkup'')) = Some network_error"
    by (simp add: ledger_insert_def)
  have h2: "code network_error \<noteq> ''23505''"
    by (simp add: network_error_def)
  show ?thesis
    using other_failure_stays [OF h1 h2, of "bd_at_confirm ''09:00''" "ca_at_confirm ''09:00''" True]
      h1 h2
    by (simp add: bd_at_confirm_def ca_at_confirm_def io_empty_def network_error_def
        split: prod.splits)
qed

section \<open>The date bound\<close>

text \<open>
  C3, as the code has it. A calendar day \<open>d\<close> is selectable if and only if it lies in the
  closed interval from today to today + 30 days: every earlier day and every day from
  today + 31 on is disabled, and the day today + 30 itself is selectable, whatever the
  time of day at which the dialog is open.
\<close>

theorem selectable_iff_closed_interval:
  "selectable now d \<longleftrightarrow> fst now \<le> d \<and> d \<le> fst now + 30"
  by (auto simp: selectable_def disabled_def isBefore_def startOfToday_def startOfDay_def
      addDays_def calendar_day_def)

theorem selectable_iff_closed_interval_witness:
  "selectable (20000, 43200000) 20000 \<and> selectable (20000, 43200000) 20030
   \<and> \<not> selectable (20000, 43200000) 20031 \<and> \<not> selectable (20000, 43200000) 19999"
  using selectable_iff_closed_interval [of "(20000, 43200000)" 20000]
    selectable_iff_closed_interval [of "(20000, 43200000)" 20030]
    selectable_iff_closed_interval [of "(20000, 43200000)" 20031]
    selectable_iff_closed_interval [of "(20000, 43200000)" 19999]
  by simp

text \<open>
  C3 as stated fails: at noon of day 20000 the day 20030, which is today + 30 days, is
  selectable, while the half-open interval leaves it out.
\<close>

theorem selectable_half_open_counterexample:
  "\<not> (selectable (20000, 43200000) 20030
        \<longleftrightarrow> (fst (20000 :: int, 43200000 :: nat) \<le> 20030
             \<and> 20030 < fst (20000 :: int, 43200000 :: nat) + 30))"
  by (simp add: selectable_def disabled_def isBefore_def startOfToday_def startOfDay_def
      addDays_def calendar_day_def)

section \<open>Cancelling\<close>

text \<open>
  C8. A cancellation that the ledger accepts sets the status of every row with the given id
  to cancelled, in the ledger and in the list of the page, leaves every other row as it
  was, and changes no field but the status: putting the old status back gives the old row.
  The handler sends the same update and shows the same toast whatever the status was, and
  cancelling again changes neither the ledger nor the list.
\<close>

theorem cancel_sets_status_only:
  "(case cancelAppointment None aid (s, w) of (s', w') \<Rightarrow>
      length (ledger w') = length (ledger w)
    \<and> (\<forall>i < length (ledger w).
          (apt_id (ledger w ! i) = aid \<longrightarrow> status (ledger w' ! i) = Cancelled)
        \<and> (apt_id (ledger w ! i) \<noteq> aid \<longrightarrow> ledger w' ! i = ledger w ! i)
        \<and> (ledger w' ! i)\<lparr>status := status (ledger w ! i)\<rparr> = ledger w ! i)
    \<and> length (appointments s') = length (appointments s)
    \<and> (\<forall>i < length (appointments s).
          (apt_id (appointments s ! i) = aid \<longrightarrow> status (appointments s' ! i) = Cancelled)
        \<and> (apt_id (appointments s ! i) \<noteq> aid \<longrightarrow> appointments s' ! i = appointments s ! i)
        \<and> (appointments s' ! i)\<lparr>status := status (appointments s ! i)\<rparr> = appointments s ! i)
    \<and> trace w' = trace w @ [UpdateStatusCancelled aid, ShowToast cancelled_toast]
    \<and> (case cancelAppointment None aid (s', w') of (s'', w'') \<Rightarrow>
          ledger w'' = ledger w' \<and> appointments s'' = appointments s'
        \<and> trace w'' = trace w' @ [UpdateStatusCancelled aid, ShowToast cancelled_toast]))"
  by (simp add: cancelAppointment_def ledger_update_cancelled_def emit_def Let_def)

theorem cancel_sets_status_only_witness:
  "(case cancelAppointment None ''a1'' (page_of [row1], io_taken) of (s', w') \<Rightarrow>
      (0 :: nat) < length (ledger io_taken) \<and> apt_id (ledger io_taken ! 0) = ''a1''
    \<and> ledger w' = [row1\<lparr>status := Cancelled\<rparr>]
    \<and> appointments s' = [row1\<lparr>status := Cancelled\<rparr>]
    \<and> cancelAppointment None ''a1'' (s', w')
        = (s', w'\<lparr>trace := trace w' @ [UpdateStatusCancelled ''a1'', ShowToast cancelled_toast]\<rparr>))"
  using cancel_sets_status_only [where aid = "''a1''" and s = "page_of [row1]" and w = io_taken]
  by (simp add: handler_defs scenario_defs Let_def)

section \<open>Filtering the directory\<close>

lemma order_rating_desc_sorted: "sorted_wrt (\<lambda>a b. rating b \<le> rating a) (order_rating_desc xs)"
proof -
  have "sorted (map (\<lambda>d. - rating d) (sort_key (\<lambda>d. - rating d) xs))"
    by (rule sorted_sort_key)
  then show ?thesis
    by (simp add: order_rating_desc_def sorted_map)
qed

lemma order_rating_desc_mset: "mset (order_rating_desc xs) = mset xs"
  by (simp add: order_rating_desc_def)

lemma query_doctors_mset:
  "mset (query_doctors tbl F R E S) =
     mset (filter (\<lambda>d. consultation_fee d \<le> F \<and> R \<le> rating d \<and> E \<le> experience_years d
                        \<and> (S \<noteq> ''All Specializations'' \<longrightarrow> specialization d = S)) tbl)"
  by (auto simp: query_doctors_def Let_def order_rating_desc_mset intro!: filter_mset_cong)

text \<open>
  C4. For every specialization \<open>S\<close>, maximum fee \<open>F\<close>, minimum rating \<open>R\<close> and minimum
  experience \<open>E\<close>, the query returns exactly the doctors of the directory, each as often as
  it is there, with fee at most \<open>F\<close>, rating at least \<open>R\<close>, experience at least \<open>E\<close> and,
  unless \<open>S\<close> is 'All Specializations', specialization \<open>S\<close>; the result is ordered by
  non-increasing rating. When the directory answers, applying the criteria stores that
  result, goes to the \<open>doctor\<close> step and does nothing but send the query, also when the
  result is empty: no toast is shown.
\<close>

theorem applyCriteria_filter_and_order:
  "mset (query_doctors tbl F R E S) =
     mset (filter (\<lambda>d. consultation_fee d \<le> F \<and> R \<le> rating d \<and> E \<le> experience_years d
                        \<and> (S \<noteq> ''All Specializations'' \<longrightarrow> specialization d = S)) tbl)
   \<and> sorted_wrt (\<lambda>a b. rating b \<le> rating a) (query_doctors tbl F R E S)
   \<and> (case handleApplyCriteria True (s, w) of (s', w') \<Rightarrow>
         ca_doctors s' =
           query_doctors (directory w) (ca_maxFee s) (ca_minRating s) (ca_minExperience s)
             (ca_selectedSpecialization s)
       \<and> ca_step s' = SDoctor
       \<and> trace w' = trace w @
           [SelectDoctors (ca_maxFee s) (ca_minRating s) (ca_minExperience s)
              (if ca_selectedSpecialization s \<noteq> ''All Specializations''
               then Some (ca_selectedSpecialization s) else None)])"
  using query_doctors_mset [of tbl F R E S]
  by (simp add: order_rating_desc_sorted query_doctors_def Let_def handleApplyCriteria_def
      fetchFilteredDoctors_def emit_def)

text \<open>
  The scenario of the spec finds D; all specializations give E before D; a fee limit of 10
  gives the empty list and the \<open>doctor\<close> step.
\<close>

theorem applyCriteria_filter_and_order_witness:
  "query_doctors [doctorD, doctorE] 150 4 5 ''Cardiologist'' = [doctorD]
   \<and> query_doctors [doctorD, doctorE] 500 3 0 ''All Specializations'' = [doctorE, doctorD]
   \<and> query_doctors [doctorD, doctorE] 10 3 0 ''All Specializations'' = []
   \<and> ca_step (fst (handleApplyCriteria True (ca_initial\<lparr>ca_maxFee := 10\<rparr>, io_empty))) = SDoctor
   \<and> ca_doctors (fst (handleApplyCriteria True (ca_initial\<lparr>ca_maxFee := 10\<rparr>, io_empty))) = []
   \<and> specialization doctorD = ''Cardiologist''"
  using applyCriteria_filter_and_order [where tbl = "[doctorD, doctorE]" and F = 150 and R = 4
      and E = 5 and S = "''Cardiologist''" and s = "ca_initial\<lparr>ca_maxFee := 10\<rparr>"
      and w = io_empty]
  by (simp add: query_doctors_def order_rating_desc_def doctorD_def doctorE_def Let_def
      handleApplyCriteria_def fetchFilteredDoctors_def emit_def ca_initial_def io_empty_def)

section \<open>Sending a chat message\<close>

text \<open>
  What \<open>trim\<close> returns: the input without a white space prefix and a white space
  suffix, and, unless empty, with no white space at either end.
\<close>

lemma trim_splits:
  "\<exists>pre post. s = pre @ trim s @ post \<and> (\<forall>c \<in> set pre. is_ws c) \<and> (\<forall>c \<in> set post. is_ws c)"
proof -
  let ?r = "rev (dropWhile is_ws s)"
  have a: "s = takeWhile is_ws s @ dropWhile is_ws s" by simp
  have "?r = takeWhile is_ws ?r @ dropWhile is_ws ?r" by simp
  then have "rev ?r = rev (dropWhile is_ws ?r) @ rev (takeWhile is_ws ?r)"
    by (metis rev_append)
  then have b: "dropWhile is_ws s = trim s @ rev (takeWhile is_ws ?r)"
    by (simp add: trim_def)
  have "s = takeWhile is_ws s @ trim s @ rev (takeWhile is_ws ?r)"
    using a b by metis
  moreover have "\<forall>c \<in> set (takeWhile is_ws s). is_ws c"
    by (auto dest: set_takeWhileD)
  moreover have "\<forall>c \<in> set (rev (takeWhile is_ws ?r)). is_ws c"
    by (auto dest: set_takeWhileD)
  ultimately show ?thesis by blast
qed

lemma trim_ends:
  assumes "trim s \<noteq> []"
  shows "\<not> is_ws (hd (trim s)) \<and> \<not> is_ws (last (trim s))"
proof -
  let ?d = "dropWhile is_ws s"
  let ?e = "dropWhile is_ws (rev ?d)"
  have e: "?e \<noteq> []" using assms by (simp add: trim_def)
  have d: "?d \<noteq> []"
  proof
    assume a: "?d = []"
    have "?e = []" unfolding a by simp
    then show False using e by blast
  qed
  have "last (trim s) = hd ?e"
    using e by (simp add: trim_def last_rev)
  moreover have "\<not> is_ws (hd ?e)"
    using e by (rule hd_dropWhile)
  moreover have "hd (trim s) = last ?e"
    using e by (simp add: trim_def hd_rev)
  moreover have "last ?e = last (rev ?d)"
  proof -
    have "rev ?d = takeWhile is_ws (rev ?d) @ ?e" by simp
    then show ?thesis using e by (metis last_appendR)
  qed
  moreover have "last (rev ?d) = hd ?d"
    using d by (simp add: last_rev)
  moreover have "\<not> is_ws (hd ?d)"
    using d by (rule hd_dropWhile)
  ultimately show ?thesis by simp
qed

text \<open>
  C10. Let a signed-in user send a non-blank message while no other send is running, and
  let the insert of the user message be accepted. If the gateway answers with an error, or
  the insert of the assistant message is rejected, then afterwards the table is the old
  table followed by the user message alone: no assistant row, and the user row is still
  there. The insert of the user message is the first request of the call and the gateway
  is invoked second.
\<close>

theorem send_not_atomic:
  assumes "trim (input s) \<noteq> []" and "\<not> loading s" and "user_insert env = Some g"
    and "(\<exists>err. gateway env = Inl err) \<or> assistant_insert env = None"
  shows "(case sendMessage (Some u) env (s, w) of (s', w') \<Rightarrow>
            chat_messages w' = chat_messages w @
              [\<lparr>msg_id = gen_id g, msg_user_id = u, msg_role = RoleUser,
                msg_content = trim (input s), msg_created_at = gen_now g\<rparr>]
          \<and> take 2 (drop (length (chat_trace w)) (chat_trace w')) =
              [InsertChatMessage u RoleUser (trim (input s)),
               InvokeCuraxChat (trim (input s)) u])"
  using assms
  by (auto simp: sendMessage_def chat_insert_def chat_emit_def Let_def split: sum.splits option.splits)

text \<open>
  The input is 'hi' between two no-break spaces (U+00A0, code unit 160); the gateway is
  down. The stored user message is 'hi'. An input of one no-break space alone is blank.
\<close>

theorem send_not_atomic_witness:
  "trim (input (chat_at [160, 104, 105, 160])) = [104, 105]
   \<and> trim [160] = []
   \<and> \<not> loading (chat_at [160, 104, 105, 160])
   \<and> gateway gateway_down = Inl ''Edge Function returned a non-2xx status code''
   \<and> map (\<lambda>m. (msg_role m, msg_content m))
        (chat_messages (snd (sendMessage (Some ''p1'') gateway_down
                               (chat_at [160, 104, 105, 160], chat_io_empty))))
       = [(RoleUser, [104, 105])]"
proof -
  have t: "trim (input (chat_at [160, 104, 105, 160])) = [104, 105]"
    by (simp add: trim_def chat_at_def is_ws_def)
  have b: "trim [160] = []"
    by (simp add: trim_def is_ws_def)
  have h1: "trim (input (chat_at [160, 104, 105, 160])) \<noteq> []" by (simp add: t)
  have h2: "\<not> loading (chat_at [160, 104, 105, 160])" by (simp add: chat_at_def)
  have h3: "user_insert gateway_down = Some gen1" by (simp add: gateway_down_def)
  have h4: "(\<exists>err. gateway gateway_down = Inl err) \<or> assistant_insert gateway_down = None"
    by (simp add: gateway_down_def)
  show ?thesis
    using send_not_atomic [OF h1 h2 h3 h4, where u = "''p1''" and w = chat_io_empty] t b h2
    by (simp add: gateway_down_def chat_io_empty_def split: prod.splits)
qed

section \<open>The weekly availability map\<close>

lemma insort_key_map_commute:
  "(\<And>x. f (h x) = f x) \<Longrightarrow> insort_key f (h x) (map h ys) = map h (insort_key f x ys)"
  by (induction ys) auto

lemma sort_key_map_commute:
  "(\<And>x. f (h x) = f x) \<Longrightarrow> sort_key f (map h xs) = map h (sort_key f xs)"
  by (induction xs) (simp_all add: insort_key_map_commute)

lemma filter_map_commute:
  "(\<And>x. P (h x) = P x) \<Longrightarrow> filter P (map h xs) = map h (filter P xs)"
  by (induction xs) auto

lemma query_doctors_availability:
  "query_doctors (map (with_availability av) tbl) F R E S
     = map (with_availability av) (query_doctors tbl F R E S)"
  by (simp add: query_doctors_def order_rating_desc_def Let_def with_availability_def
      filter_map_commute sort_key_map_commute)

lemma bd_fetch_availability:
  "bd_fetchBookedSlots (Some (with_availability av d)) ok date sw
     = bd_fetchBookedSlots (Some d) ok date sw"
  by (cases sw) (simp add: bd_fetchBookedSlots_def with_availability_def Let_def)

lemma bd_dateSelect_availability:
  "bd_handleDateSelect (Some (with_availability av d)) ok date sw
     = bd_handleDateSelect (Some d) ok date sw"
  by (cases sw)
    (simp add: bd_handleDateSelect_def bd_fetch_availability Let_def split: option.splits)

lemma booking_payload_availability:
  "booking_payload u (with_availability av d) date time n = booking_payload u d date time n"
  by (simp add: booking_payload_def with_availability_def)

lemma booked_toast_availability:
  "booked_toast (with_availability av d) = booked_toast d"
  by (simp add: booked_toast_def with_availability_def)

lemma bd_booking_availability:
  "bd_handleBooking user (Some (with_availability av d)) fault g ok sw
     = bd_handleBooking user (Some d) fault g ok sw"
  by (cases sw)
    (simp add: bd_handleBooking_def bd_fetch_availability booking_payload_availability
      booked_toast_availability Let_def split: option.splits)

lemma bd_flow_availability:
  "bd_flow user (Some (with_availability av d)) now day time n dok fault g bok sw
     = bd_flow user (Some d) now day time n dok fault g bok sw"
  by (simp add: bd_flow_def bd_dateSelect_availability bd_booking_availability
      split: prod.splits)

lemma ca_fetch_availability:
  "ca_fetchBookedSlots ok date
      (s\<lparr>ca_doctors := ds, ca_selectedDoctor := Some (with_availability av d)\<rparr>,
       w\<lparr>directory := dir\<rparr>)
   = (case ca_fetchBookedSlots ok date (s\<lparr>ca_selectedDoctor := Some d\<rparr>, w) of
        (s', w') \<Rightarrow>
          (s'\<lparr>ca_doctors := ds, ca_selectedDoctor := Some (with_availability av d)\<rparr>,
           w'\<lparr>directory := dir\<rparr>))"
  by (simp add: ca_fetchBookedSlots_def with_availability_def emit_def Let_def)

lemma ca_dateSelect_availability:
  "ca_handleDateSelect ok date
      (s\<lparr>ca_doctors := ds, ca_selectedDoctor := Some (with_availability av d)\<rparr>,
       w\<lparr>directory := dir\<rparr>)
   = (case ca_handleDateSelect ok date (s\<lparr>ca_selectedDoctor := Some d\<rparr>, w) of
        (s', w') \<Rightarrow>
          (s'\<lparr>ca_doctors := ds, ca_selectedDoctor := Some (with_availability av d)\<rparr>,
           w'\<lparr>directory := dir\<rparr>))"
  by (simp add: ca_handleDateSelect_def ca_fetchBookedSlots_def with_availability_def emit_def
      Let_def split: option.splits)

lemma ca_booking_availability:
  "ca_handleBooking user fault g ok
      (s\<lparr>ca_doctors := ds, ca_selectedDoctor := Some (with_availability av d)\<rparr>,
       w\<lparr>directory := dir\<rparr>)
   = (case ca_handleBooking user fault g ok (s\<lparr>ca_selectedDoctor := Some d\<rparr>, w) of
        (s', w') \<Rightarrow>
          (s'\<lparr>ca_doctors := ds, ca_selectedDoctor := Some (with_availability av d)\<rparr>,
           w'\<lparr>directory := dir\<rparr>))"
  by (simp add: ca_handleBooking_def ca_fetchBookedSlots_def booking_payload_availability
      booked_toast_availability emit_def Let_def split: option.splits)
     (simp add: with_availability_def)

lemma ca_dateSelect_selectedDoctor:
  "ca_selectedDoctor (fst (ca_handleDateSelect ok date (s, w))) = ca_selectedDoctor s"
  by (simp add: ca_handleDateSelect_def ca_fetchBookedSlots_def Let_def
      split: option.splits prod.splits)

lemma ca_book_flow_availability:
  "ca_book_flow user now day time n dok fault g bok
      (s\<lparr>ca_doctors := ds, ca_selectedDoctor := Some (with_availability av d)\<rparr>,
       w\<lparr>directory := dir\<rparr>)
   = (case ca_book_flow user now day time n dok fault g bok
             (s\<lparr>ca_selectedDoctor := Some d\<rparr>, w) of
        (s', w') \<Rightarrow>
          (s'\<lparr>ca_doctors := ds, ca_selectedDoctor := Some (with_availability av d)\<rparr>,
           w'\<lparr>directory := dir\<rparr>))"
proof (cases "selectable now day")
  case False
  then show ?thesis by (simp add: ca_book_flow_def)
next
  case True
  obtain s2 w2 where r: "ca_handleDateSelect dok (Some (calendar_day day))
      (s\<lparr>ca_selectedDoctor := Some d\<rparr>, w) = (s2, w2)"
    by (cases "ca_handleDateSelect dok (Some (calendar_day day))
      (s\<lparr>ca_selectedDoctor := Some d\<rparr>, w)") blast
  have sel: "ca_selectedDoctor s2 = Some d"
    using ca_dateSelect_selectedDoctor [where ok = dok and date = "Some (calendar_day day)"
        and s = "s\<lparr>ca_selectedDoctor := Some d\<rparr>" and w = w] r by simp
  let ?t = "(ca_handleTimeSelect time s2)\<lparr>ca_notes := n\<rparr>"
  have t: "?t\<lparr>ca_selectedDoctor := Some d\<rparr> = ?t"
    using sel by (simp add: ca_handleTimeSelect_def)
  have b: "ca_handleBooking user fault g bok
      (?t\<lparr>ca_doctors := ds, ca_selectedDoctor := Some (with_availability av d)\<rparr>,
       w2\<lparr>directory := dir\<rparr>)
    = (case ca_handleBooking user fault g bok (?t, w2) of
        (s', w') \<Rightarrow>
          (s'\<lparr>ca_doctors := ds, ca_selectedDoctor := Some (with_availability av d)\<rparr>,
           w'\<lparr>directory := dir\<rparr>))"
    using ca_booking_availability [where user = user and fault = fault and g = g and ok = bok
        and s = ?t and ds = ds and av = av and d = d and w = w2 and dir = dir] t by simp
  have u: "(ca_handleTimeSelect time
              (s2\<lparr>ca_doctors := ds, ca_selectedDoctor := Some (with_availability av d)\<rparr>))
            \<lparr>ca_notes := n\<rparr>
      = ?t\<lparr>ca_doctors := ds, ca_selectedDoctor := Some (with_availability av d)\<rparr>"
    by (simp add: ca_handleTimeSelect_def)
  show ?thesis
    using True r
    by (simp add: ca_book_flow_def ca_dateSelect_availability ca_slot_buttons_def u b)
qed

lemma ca_fetch_doctors:
  "ca_doctors (fst (ca_fetchBookedSlots ok date (s, w))) = ca_doctors s"
  by (simp add: ca_fetchBookedSlots_def Let_def split: option.splits)

lemma ca_dateSelect_doctors:
  "ca_doctors (fst (ca_handleDateSelect ok date (s, w))) = ca_doctors s"
  by (simp add: ca_handleDateSelect_def ca_fetchBookedSlots_def Let_def
      split: option.splits prod.splits)

lemma ca_booking_doctors:
  "ca_doctors (fst (ca_handleBooking user fault g ok (s, w))) = ca_doctors s"
  by (simp add: ca_handleBooking_def ca_fetchBookedSlots_def Let_def
      split: option.splits prod.splits)

lemma ca_book_flow_doctors:
  "ca_doctors (fst (ca_book_flow user now day time n dok fault g bok (s, w))) = ca_doctors s"
proof -
  obtain s2 w2 where r: "ca_handleDateSelect dok (Some (calendar_day day)) (s, w) = (s2, w2)"
    by (cases "ca_handleDateSelect dok (Some (calendar_day day)) (s, w)") blast
  have "ca_doctors s2 = ca_doctors s"
    using ca_dateSelect_doctors [where ok = dok and date = "Some (calendar_day day)"
        and s = s and w = w] r by simp
  then show ?thesis
    using r by (simp add: ca_book_flow_def ca_booking_doctors ca_handleTimeSelect_def)
qed

lemma doctor_card_availability: "doctor_card (with_availability av d) = doctor_card d"
  by (simp add: doctor_card_def with_availability_def)

lemma with_availability_same: "with_availability availability d = d"
  by (simp add: with_availability_def)

lemma ca_book_flow_observe:
  assumes "map doctor_card ds = map doctor_card (ca_doctors s)"
  shows "ca_observe (ca_book_flow user now day time n dok fault g bok
            (handleSelectDoctor (with_availability av d) (s\<lparr>ca_doctors := ds\<rparr>),
             w\<lparr>directory := dir\<rparr>))
       = ca_observe (ca_book_flow user now day time n dok fault g bok
            (handleSelectDoctor d s, w))"
proof -
  let ?s = "s\<lparr>ca_step := SDate\<rparr>"
  have l: "handleSelectDoctor (with_availability av d) (s\<lparr>ca_doctors := ds\<rparr>)
      = ?s\<lparr>ca_doctors := ds, ca_selectedDoctor := Some (with_availability av d)\<rparr>"
    by (simp add: handleSelectDoctor_def)
  have r: "handleSelectDoctor d s = ?s\<lparr>ca_selectedDoctor := Some d\<rparr>"
    by (simp add: handleSelectDoctor_def)
  obtain s' w' where f: "ca_book_flow user now day time n dok fault g bok
      (?s\<lparr>ca_selectedDoctor := Some d\<rparr>, w) = (s', w')"
    by (cases "ca_book_flow user now day time n dok fault g bok
      (?s\<lparr>ca_selectedDoctor := Some d\<rparr>, w)") blast
  have "ca_doctors s' = ca_doctors s"
    using ca_book_flow_doctors [where user = user and now = now and day = day and time = time
        and n = n and dok = dok and fault = fault and g = g and bok = bok
        and s = "?s\<lparr>ca_selectedDoctor := Some d\<rparr>" and w = w] f by simp
  then show ?thesis
    using assms f
    by (simp add: l r ca_book_flow_availability ca_observe_def ca_slot_buttons_def)
qed

text \<open>
  C9. Replace the availability map of the doctor by any other map. A run of the dialog with
  a pre-selected doctor then gives the same state, the same ledger and the same trace,
  hence the same slot buttons and the same insert. A run of the wizard on a directory in
  which every doctor got another availability map shows the same step, cards, date, time
  and slot buttons, and produces the same trace and ledger. Which days can be clicked is
  decided by \<open>selectable\<close>, which has the clock and the day as its only arguments.
\<close>

theorem booking_ignores_availability:
  "bd_flow user (Some (with_availability av d)) now day time n dok fault g bok sb
     = bd_flow user (Some d) now day time n dok fault g bok sb
   \<and> ca_observe (ca_flow user now cok k day time n dok fault g bok
        (sc, w\<lparr>directory := map (with_availability av) (directory w)\<rparr>))
     = ca_observe (ca_flow user now cok k day time n dok fault g bok (sc, w))"
proof
  show "bd_flow user (Some (with_availability av d)) now day time n dok fault g bok sb
     = bd_flow user (Some d) now day time n dok fault g bok sb"
    by (rule bd_flow_availability)
next
  let ?dir = "map (with_availability av) (directory w)"
  let ?Q = "query_doctors (directory w) (ca_maxFee sc) (ca_minRating sc) (ca_minExperience sc)
             (ca_selectedSpecialization sc)"
  let ?w0 = "emit (SelectDoctors (ca_maxFee sc) (ca_minRating sc) (ca_minExperience sc)
                (if ca_selectedSpecialization sc \<noteq> ''All Specializations''
                 then Some (ca_selectedSpecialization sc) else None)) w"
  show "ca_observe (ca_flow user now cok k day time n dok fault g bok (sc, w\<lparr>directory := ?dir\<rparr>))
     = ca_observe (ca_flow user now cok k day time n dok fault g bok (sc, w))"
  proof (cases cok)
    case True
    let ?s0 = "sc\<lparr>ca_doctors := ?Q, ca_loadingDoctors := False, ca_step := SDoctor\<rparr>"
    have a: "handleApplyCriteria cok (sc, w) = (?s0, ?w0)"
      using True by (simp add: handleApplyCriteria_def fetchFilteredDoctors_def Let_def)
    have b: "handleApplyCriteria cok (sc, w\<lparr>directory := ?dir\<rparr>)
        = (?s0\<lparr>ca_doctors := map (with_availability av) ?Q\<rparr>, ?w0\<lparr>directory := ?dir\<rparr>)"
      using True
      by (simp add: handleApplyCriteria_def fetchFilteredDoctors_def Let_def emit_def
          query_doctors_availability)
    have c: "map doctor_card (map (with_availability av) ?Q) = map doctor_card (ca_doctors ?s0)"
      by (simp add: doctor_card_availability)
    show ?thesis
    proof (cases "length ?Q \<le> k")
      case True
      then show ?thesis
        by (simp add: ca_flow_def a b ca_observe_def doctor_card_availability
            ca_slot_buttons_def emit_def)
    next
      case False
      then show ?thesis
        using ca_book_flow_observe [OF c, where user = user and now = now and day = day
            and time = time and n = n and dok = dok and fault = fault and g = g and bok = bok
            and av = av and d = "?Q ! k" and w = ?w0 and dir = ?dir]
        by (simp add: ca_flow_def a b)
    qed
  next
    case False
    let ?s0 = "sc\<lparr>ca_loadingDoctors := False, ca_step := SDoctor\<rparr>"
    have a: "handleApplyCriteria cok (sc, w) = (?s0, ?w0)"
      using False by (simp add: handleApplyCriteria_def fetchFilteredDoctors_def Let_def)
    have b: "handleApplyCriteria cok (sc, w\<lparr>directory := ?dir\<rparr>)
        = (?s0\<lparr>ca_doctors := ca_doctors sc\<rparr>, ?w0\<lparr>directory := ?dir\<rparr>)"
      using False
      by (simp add: handleApplyCriteria_def fetchFilteredDoctors_def Let_def emit_def)
    have c: "map doctor_card (ca_doctors sc) = map doctor_card (ca_doctors ?s0)"
      by simp
    show ?thesis
    proof (cases "length (ca_doctors sc) \<le> k")
      case True
      then show ?thesis
        by (simp add: ca_flow_def a b ca_observe_def ca_slot_buttons_def emit_def)
    next
      case False
      then show ?thesis
        using ca_book_flow_observe [OF c, where user = user and now = now and day = day
            and time = time and n = n and dok = dok and fault = fault and g = g and bok = bok
            and av = availability and d = "ca_doctors sc ! k" and w = ?w0 and dir = ?dir]
        by (simp add: ca_flow_def a b with_availability_same)
    qed
  qed
qed

text \<open>
  D marks Tuesday as unavailable; a booking for Tuesday 2026-03-10 at 09:00, made two days
  before, succeeds as it does for the same doctor with an empty availability map.
\<close>

theorem booking_ignores_availability_witness:
  "availability doctorD ''Tuesday'' = Some False
   \<and> bd_step (fst (bd_flow (Some ''p1'') (Some doctorD) (20520, 36000000) 20522 ''09:00''
                      ''checkup'' True None gen1 True (bd_initial, io_empty))) = BSuccess
   \<and> bd_flow (Some ''p1'') (Some (with_availability (\<lambda>_. Map.empty) doctorD))
        (20520, 36000000) 20522 ''09:00'' ''checkup'' True None gen1 True (bd_initial, io_empty)
     = bd_flow (Some ''p1'') (Some doctorD)
        (20520, 36000000) 20522 ''09:00'' ''checkup'' True None gen1 True (bd_initial, io_empty)"
proof -
  have a: "availability doctorD ''Tuesday'' = Some False"
    by (simp add: doctorD_def)
  have b: "bd_step (fst (bd_flow (Some ''p1'') (Some doctorD) (20520, 36000000) 20522 ''09:00''
                      ''checkup'' True None gen1 True (bd_initial, io_empty))) = BSuccess"
    by (simp add: bd_flow_def selectable_unfold bd_handleDateSelect_def
        bd_slot_buttons_def timeSlots_def bd_handleTimeSelect_def bd_initial_def handler_defs
        scenario_defs Let_def)
  show ?thesis
    using booking_ignores_availability [where user = "Some ''p1''" and av = "\<lambda>_. Map.empty"
        and d = doctorD and now = "(20520, 36000000)" and day = 20522 and time = "''09:00''"
        and n = "''checkup''" and dok = True and fault = None and g = gen1 and bok = True
        and sb = "(bd_initial, io_empty)"] a b
    by simp
qed

end
